theory Spec2Isabelle
  imports Main "HOL-Library.Sublist" "HOL-Library.Word"
begin

section \<open>JSON values and the Python operations applied to them\<close>

text \<open>
  A decoded JSON document, as \<open>response.json()\<close> and \<open>json.loads\<close> hand it to the SDK.
  An object is a Python dict, kept as an association list (\<open>map_of\<close> looks a key up);
  \<open>JNull\<close> is Python's \<open>None\<close>. Numbers are integers here: no operation of the
  transport computes with them.
\<close>

datatype json =
    JNull
  | JBool bool
  | JNum int
  | JStr string
  | JArr "json list"
  | JObj "(string \<times> json) list"

text \<open>The fields of \<open>ReshADXError\<close> (utils/errors.py): message, code, status_code, details.\<close>

record reshadx_error =
  message :: json
  code :: json
  err_status_code :: nat
  details :: json

text \<open>
  The exceptions that can travel through \<open>HttpClient.request\<close>: the SDK's own classes
  (\<open>ServerError\<close> is a subclass of \<open>ReshADXError\<close>), Python's built-in errors raised by
  operations on a decoded body, and the exceptions of the HTTP library.
  \<open>JSONDecodeError\<close> is raised by \<open>response.json()\<close>; it is a \<open>ValueError\<close> and, in the
  HTTP library, also a \<open>RequestException\<close>.
\<close>

datatype exn =
    ReshADXError reshadx_error
  | ServerError reshadx_error
  | TypeError
  | AttributeError
  | KeyError
  | UnicodeEncodeError
  | JSONDecodeError string
  | Timeout
  | ConnectionError
  | RequestException string

fun truthy :: "json \<Rightarrow> bool" where
  "truthy JNull = False"
| "truthy (JBool b) = b"
| "truthy (JNum n) = (n \<noteq> 0)"
| "truthy (JStr s) = (s \<noteq> [])"
| "truthy (JArr xs) = (xs \<noteq> [])"
| "truthy (JObj kvs) = (kvs \<noteq> [])"

text \<open>\<open>ReshADXError.__init__\<close>: \<open>self.details = details or {}\<close>.\<close>

definition init_error :: "json \<Rightarrow> json \<Rightarrow> nat \<Rightarrow> json \<Rightarrow> reshadx_error" where
  "init_error msg cd st dt =
     \<lparr>message = msg, code = cd, err_status_code = st,
      details = (if truthy dt then dt else JObj [])\<rparr>"

text \<open>\<open>ServerError.__init__\<close>: \<open>super().__init__(message, "SERVER_ERROR", 500)\<close>.\<close>

definition init_ServerError :: "string \<Rightarrow> exn" where
  "init_ServerError msg = ServerError (init_error (JStr msg) (JStr ''SERVER_ERROR'') 500 JNull)"

text \<open>Python's substring test \<open>p in s\<close> on two strings.\<close>

fun substring :: "string \<Rightarrow> string \<Rightarrow> bool" where
  "substring p [] = (p = [])"
| "substring p (c # cs) = (prefix p (c # cs) \<or> substring p cs)"

text \<open>
  \<open>k in x\<close> for a string \<open>k\<close>: key membership on a dict, element membership on a list,
  substring test on a string, and \<open>TypeError\<close> on \<open>None\<close>, a bool or a number.
\<close>

fun py_contains :: "string \<Rightarrow> json \<Rightarrow> exn + bool" where
  "py_contains k (JObj kvs) = Inr (map_of kvs k \<noteq> None)"
| "py_contains k (JArr xs) = Inr (JStr k \<in> set xs)"
| "py_contains k (JStr s) = Inr (substring k s)"
| "py_contains k JNull = Inl TypeError"
| "py_contains k (JBool b) = Inl TypeError"
| "py_contains k (JNum n) = Inl TypeError"

text \<open>
  \<open>x[k]\<close> for a string \<open>k\<close>: the value on a dict (\<open>KeyError\<close> when the key is missing),
  \<open>TypeError\<close> on everything else (a list or a string takes integer indices only).
\<close>

fun py_getitem :: "json \<Rightarrow> string \<Rightarrow> exn + json" where
  "py_getitem (JObj kvs) k = (case map_of kvs k of None \<Rightarrow> Inl KeyError | Some v \<Rightarrow> Inr v)"
| "py_getitem x k = Inl TypeError"

text \<open>
  \<open>x.get(k, d)\<close>: the method exists on a dict only; every other value raises
  \<open>AttributeError\<close>.
\<close>

fun py_get :: "json \<Rightarrow> string \<Rightarrow> json \<Rightarrow> exn + json" where
  "py_get (JObj kvs) k d = (case map_of kvs k of None \<Rightarrow> Inr d | Some v \<Rightarrow> Inr v)"
| "py_get x k d = Inl AttributeError"

text \<open>\<open>str(n)\<close> for a non-negative integer, as the f-string of the fallback error needs it.\<close>

definition digit_char :: "nat \<Rightarrow> char" where
  "digit_char d = ''0123456789'' ! d"

fun str_nat :: "nat \<Rightarrow> string" where
  "str_nat n = (if n < 10 then [digit_char n] else str_nat (n div 10) @ [digit_char (n mod 10)])"

declare str_nat.simps [simp del]

section \<open>Responses\<close>

text \<open>
  What the transport reads of a \<open>requests.Response\<close>: \<open>status_code\<close>, \<open>text\<close>, the result
  of \<open>json()\<close> (\<open>Inl\<close> the message of the \<open>JSONDecodeError\<close> when decoding raises, \<open>Inr\<close>
  the decoded value otherwise) and the \<open>Retry-After\<close> header in seconds, when the
  response has one.
\<close>

record response =
  status_code :: nat
  resp_text :: string
  resp_json :: "string + json"
  retry_after :: "nat option"

text \<open>\<open>Response.ok\<close>: false exactly for the statuses 400 to 599.\<close>

definition ok :: "response \<Rightarrow> bool" where
  "ok r = (\<not> (400 \<le> status_code r \<and> status_code r < 600))"

definition json_of :: "response \<Rightarrow> exn + json" where
  "json_of r = (case resp_json r of Inl m \<Rightarrow> Inl (JSONDecodeError m) | Inr v \<Rightarrow> Inr v)"

definition is_ValueError :: "exn \<Rightarrow> bool" where
  "is_ValueError e =
     (case e of JSONDecodeError s \<Rightarrow> True | UnicodeEncodeError \<Rightarrow> True | _ \<Rightarrow> False)"

subsection \<open>\<open>HttpClient._handle_error_response\<close>\<close>

text \<open>The statement \<open>raise ReshADXError(message=..., code=..., status_code=..., details=...)\<close>.\<close>

definition raise_envelope_error :: "response \<Rightarrow> json \<Rightarrow> exn + unit" where
  "raise_envelope_error r error =
     (case py_get error ''message'' (JStr ''Unknown error'') of
        Inl e \<Rightarrow> Inl e
      | Inr msg \<Rightarrow>
         (case py_get error ''code'' (JStr ''UNKNOWN_ERROR'') of
            Inl e \<Rightarrow> Inl e
          | Inr cd \<Rightarrow>
             (case py_get error ''details'' JNull of
                Inl e \<Rightarrow> Inl e
              | Inr dt \<Rightarrow> Inl (ReshADXError (init_error msg cd (status_code r) dt)))))"

text \<open>The body of the \<open>try\<close> block (http.py lines 151 to 159).\<close>

definition error_try_block :: "response \<Rightarrow> exn + unit" where
  "error_try_block r =
     (case json_of r of
        Inl e \<Rightarrow> Inl e
      | Inr error_data \<Rightarrow>
         (case py_contains ''error'' error_data of
            Inl e \<Rightarrow> Inl e
          | Inr False \<Rightarrow> Inr ()
          | Inr True \<Rightarrow>
             (case py_getitem error_data ''error'' of
                Inl e \<Rightarrow> Inl e
              | Inr error \<Rightarrow> raise_envelope_error r error)))"

text \<open>
  The whole method: \<open>except ValueError: pass\<close> lets only a \<open>ValueError\<close> fall through to
  the fallback \<open>raise ServerError(f"HTTP {status_code}: {text}")\<close>; every other
  exception of the block leaves the method.
\<close>

definition fallback_error :: "response \<Rightarrow> exn" where
  "fallback_error r = init_ServerError (''HTTP '' @ str_nat (status_code r) @ '': '' @ resp_text r)"

definition handle_error_response :: "response \<Rightarrow> exn + unit" where
  "handle_error_response r =
     (case error_try_block r of
        Inl e \<Rightarrow> (if is_ValueError e then Inl (fallback_error r) else Inl e)
      | Inr u \<Rightarrow> Inl (fallback_error r))"

section \<open>The client and its session\<close>

text \<open>
  The retry policy handed to the mounted adapter (http.py lines 41 to 46):
  \<open>Retry(total=max_retries, backoff_factor=1, status_forcelist=[...], allowed_methods=[...])\<close>.
\<close>

record retry =
  total :: nat
  backoff_factor :: nat
  status_forcelist :: "nat list"
  allowed_methods :: "string list"

text \<open>
  The state of an \<open>HttpClient\<close>: its attributes, the headers of its session and the
  retry policy of the adapter mounted on the session.
\<close>

record http_client =
  api_key :: string
  access_token :: "string option"
  timeout :: int
  base_url :: string
  headers :: "string \<rightharpoonup> string"
  retry_strategy :: retry

text \<open>
  The headers of a fresh \<open>requests.Session()\<close>. Their values depend on the version of
  the HTTP library; \<open>Authorization\<close> is not among them.
\<close>

definition session_default_headers :: "string \<rightharpoonup> string" where
  "session_default_headers =
     [''User-Agent'' \<mapsto> ''python-requests'', ''Accept-Encoding'' \<mapsto> ''gzip, deflate'',
      ''Accept'' \<mapsto> ''*/*'', ''Connection'' \<mapsto> ''keep-alive'']"

text \<open>
  \<open>HttpClient.__init__\<close>. \<open>if base_url:\<close> is false for \<open>None\<close> and for the empty string.
\<close>

definition init :: "string \<Rightarrow> string \<Rightarrow> string option \<Rightarrow> int \<Rightarrow> nat \<Rightarrow> http_client" where
  "init key environment url tmo max_retries =
     \<lparr>api_key = key,
      access_token = None,
      timeout = tmo,
      base_url =
        (case url of
           Some u \<Rightarrow>
             (if u \<noteq> [] then u
              else if environment = ''production'' then ''https://api.reshadx.com/v1''
              else ''https://sandbox-api.reshadx.com/v1'')
         | None \<Rightarrow>
             (if environment = ''production'' then ''https://api.reshadx.com/v1''
              else ''https://sandbox-api.reshadx.com/v1'')),
      headers =
        session_default_headers
          (''Content-Type'' \<mapsto> ''application/json'',
           ''X-API-Key'' \<mapsto> key,
           ''User-Agent'' \<mapsto> ''ReshADX-Python-SDK/1.0.0''),
      retry_strategy =
        \<lparr>total = max_retries,
         backoff_factor = 1,
         status_forcelist = [429, 500, 502, 503, 504],
         allowed_methods = [''HEAD'', ''GET'', ''PUT'', ''DELETE'', ''OPTIONS'', ''TRACE'', ''POST'']\<rparr>\<rparr>"

definition set_access_token :: "http_client \<Rightarrow> string \<Rightarrow> http_client" where
  "set_access_token c token =
     c\<lparr>access_token := Some token,
       headers := (headers c)(''Authorization'' \<mapsto> ''Bearer '' @ token)\<rparr>"

definition clear_access_token :: "http_client \<Rightarrow> http_client" where
  "clear_access_token c =
     c\<lparr>access_token := None,
       headers :=
         (if ''Authorization'' \<in> dom (headers c) then (headers c)(''Authorization'' := None)
          else headers c)\<rparr>"

subsection \<open>\<open>HttpClient.request\<close>\<close>

text \<open>
  The call \<open>self.session.request(method=..., url=..., params=..., json=..., timeout=...)\<close>
  as the session sees it. The call passes no headers of its own, so the request carries
  the session's headers as they are at dispatch. The URL is \<open>urljoin(base_url, path.lstrip("/"))\<close>;
  its two arguments are kept.
\<close>

record prepared =
  req_method :: string
  req_base :: string
  req_path :: string
  req_params :: "json option"
  req_json :: "json option"
  req_timeout :: int
  req_headers :: "string \<rightharpoonup> string"

definition prepare ::
  "http_client \<Rightarrow> string \<Rightarrow> string \<Rightarrow> json option \<Rightarrow> json option \<Rightarrow> prepared" where
  "prepare c method path params json_data =
     \<lparr>req_method = method,
      req_base = base_url c,
      req_path = dropWhile (\<lambda>ch. ch = CHR ''/'') path,
      req_params = params,
      req_json = json_data,
      req_timeout = timeout c,
      req_headers = headers c\<rparr>"

text \<open>\<open>if isinstance(data, dict) and "data" in data: return data["data"]\<close>, else \<open>return data\<close>.\<close>

fun unwrap_data :: "json \<Rightarrow> json" where
  "unwrap_data (JObj kvs) = (case map_of kvs ''data'' of Some d \<Rightarrow> d | None \<Rightarrow> JObj kvs)"
| "unwrap_data v = v"

text \<open>
  The body of the \<open>try\<close> block of \<open>request\<close>. \<open>send\<close> is \<open>session.request\<close>: it returns a
  response or raises an exception of the HTTP library.
\<close>

definition request_try_block ::
  "http_client \<Rightarrow> (prepared \<Rightarrow> exn + response) \<Rightarrow> string \<Rightarrow> string \<Rightarrow> json option \<Rightarrow> json option
     \<Rightarrow> exn + json" where
  "request_try_block c send method path params json_data =
     (case send (prepare c method path params json_data) of
        Inl e \<Rightarrow> Inl e
      | Inr r \<Rightarrow>
         (case (if \<not> ok r then handle_error_response r else Inr ()) of
            Inl e \<Rightarrow> Inl e
          | Inr u \<Rightarrow>
             (case json_of r of
                Inl e \<Rightarrow> Inl e
              | Inr data \<Rightarrow> Inr (unwrap_data data))))"

text \<open>The classes the three \<open>except\<close> clauses test, and \<open>str(e)\<close> for the third.\<close>

definition is_Timeout :: "exn \<Rightarrow> bool" where
  "is_Timeout e = (e = Timeout)"

definition is_ConnectionError :: "exn \<Rightarrow> bool" where
  "is_ConnectionError e = (e = ConnectionError)"

definition is_RequestException :: "exn \<Rightarrow> bool" where
  "is_RequestException e =
     (case e of
        Timeout \<Rightarrow> True
      | ConnectionError \<Rightarrow> True
      | RequestException s \<Rightarrow> True
      | JSONDecodeError s \<Rightarrow> True
      | _ \<Rightarrow> False)"

definition str_exn :: "exn \<Rightarrow> string" where
  "str_exn e = (case e of RequestException s \<Rightarrow> s | JSONDecodeError s \<Rightarrow> s | _ \<Rightarrow> [])"

definition sdk_error :: "string \<Rightarrow> string \<Rightarrow> exn" where
  "sdk_error msg cd = ReshADXError (init_error (JStr msg) (JStr cd) 0 JNull)"

text \<open>
  \<open>request\<close> returns the result together with the client: no statement of the method
  assigns to \<open>self\<close> or to the session headers, so the client comes back as it went in.
\<close>

definition request ::
  "http_client \<Rightarrow> (prepared \<Rightarrow> exn + response) \<Rightarrow> string \<Rightarrow> string \<Rightarrow> json option \<Rightarrow> json option
     \<Rightarrow> (exn + json) \<times> http_client" where
  "request c send method path params json_data =
     (case request_try_block c send method path params json_data of
        Inl e \<Rightarrow>
          (if is_Timeout e then Inl (sdk_error ''Request timed out'' ''TIMEOUT_ERROR'')
           else if is_ConnectionError e then Inl (sdk_error ''Connection error'' ''NETWORK_ERROR'')
           else if is_RequestException e then Inl (sdk_error (str_exn e) ''NETWORK_ERROR'')
           else Inl e)
      | Inr v \<Rightarrow> Inr v,
      c)"

subsection \<open>The retry loop of the session\<close>

text \<open>
  The loop that repeats an attempt is run by the adapter mounted on the session (the
  retry policy object of the HTTP library). It is not among the repository's sources:
  http.py only builds its configuration. The definitions of this subsection follow the
  spec's description of it.

  The remote end is a function from the attempt number (from 0) to the outcome of that
  attempt. The trace of a call records the outcome handed back, the number of attempts
  made and the delays slept between them, in time units.
\<close>

record trace =
  outcome :: "exn + response"
  attempts :: nat
  delays :: "nat list"

text \<open>
  Modelled from the spec: the retry decision of the library's policy, which is missing
  from the sources. An outcome is retried when it is a response whose status is in the
  retryable set, or a connection-level failure (timeout, connection error).
\<close>

definition retryable_outcome :: "retry \<Rightarrow> exn + response \<Rightarrow> bool" where
  "retryable_outcome p out =
     (case out of
        Inr r \<Rightarrow> status_code r \<in> set (status_forcelist p)
      | Inl e \<Rightarrow> e = Timeout \<or> e = ConnectionError)"

text \<open>
  Modelled from the spec: the method test of the library's policy, which is missing from
  the sources. Only the allow-listed methods are retried.
\<close>

definition should_retry :: "retry \<Rightarrow> string \<Rightarrow> exn + response \<Rightarrow> bool" where
  "should_retry p method out = (method \<in> set (allowed_methods p) \<and> retryable_outcome p out)"

text \<open>
  Modelled from the spec: the backoff formula of the library's policy, which is missing
  from the sources. The backoff is exponential in the number of retries made so far,
  scaled by the base factor.
\<close>

definition backoff_time :: "retry \<Rightarrow> nat \<Rightarrow> nat" where
  "backoff_time p n = backoff_factor p * 2 ^ n"

text \<open>
  Modelled from the spec: the delay the library's policy sleeps before the next attempt,
  which is missing from the sources. A \<open>Retry-After\<close> hint of a 429 response takes
  precedence over the computed backoff.
\<close>

definition retry_delay :: "retry \<Rightarrow> nat \<Rightarrow> exn + response \<Rightarrow> nat" where
  "retry_delay p n out =
     (case out of
        Inr r \<Rightarrow>
          (if status_code r = 429 then
             (case retry_after r of Some d \<Rightarrow> d | None \<Rightarrow> backoff_time p n)
           else backoff_time p n)
      | Inl e \<Rightarrow> backoff_time p n)"

text \<open>
  Modelled from the spec: the retry loop of the library's adapter, which is missing from
  the sources. \<open>i\<close> is the number of the current attempt and the last argument the number
  of retries left: a retryable outcome is retried up to \<open>total\<close> additional times, and
  once no retry is left the last outcome is handed back to the caller for classification.
\<close>

fun retry_loop :: "retry \<Rightarrow> string \<Rightarrow> (nat \<Rightarrow> exn + response) \<Rightarrow> nat \<Rightarrow> nat \<Rightarrow> trace" where
  "retry_loop p method remote i 0 = \<lparr>outcome = remote i, attempts = Suc i, delays = []\<rparr>"
| "retry_loop p method remote i (Suc left) =
     (if should_retry p method (remote i) then
        (let t = retry_loop p method remote (Suc i) left
         in t\<lparr>delays := retry_delay p i (remote i) # delays t\<rparr>)
      else \<lparr>outcome = remote i, attempts = Suc i, delays = []\<rparr>)"

text \<open>
  \<open>session.request\<close> with the policy of the client, against a remote end that answers a
  request attempt by attempt; \<open>send_via\<close> is what \<open>request\<close> then receives as its \<open>send\<close>.
\<close>

definition session_request ::
  "http_client \<Rightarrow> (prepared \<Rightarrow> nat \<Rightarrow> exn + response) \<Rightarrow> prepared \<Rightarrow> trace" where
  "session_request c remote req =
     retry_loop (retry_strategy c) (req_method req) (remote req) 0 (total (retry_strategy c))"

definition send_via ::
  "http_client \<Rightarrow> (prepared \<Rightarrow> nat \<Rightarrow> exn + response) \<Rightarrow> prepared \<Rightarrow> exn + response" where
  "send_via c remote req = outcome (session_request c remote req)"

text \<open>
  A remote end for examples: it answers the queued outcomes, one per attempt, and the
  outcome \<open>d\<close> on every attempt after them, whatever the request.
\<close>

definition scripted :: "(exn + response) list \<Rightarrow> (exn + response) \<Rightarrow> prepared \<Rightarrow> nat \<Rightarrow> exn + response" where
  "scripted outs d req i = (if i < length outs then outs ! i else d)"

section \<open>Webhook signature verification\<close>

text \<open>
  The library functions \<open>Webhooks.verify_signature\<close> and \<open>Webhooks.parse_payload\<close> call are
  parameters: HMAC-SHA256 over bytes (\<open>hmac.new(key, msg, hashlib.sha256).digest()\<close>),
  \<open>str.encode("utf-8")\<close> (\<open>None\<close> when it raises \<open>UnicodeEncodeError\<close>) and \<open>json.loads\<close>
  (\<open>None\<close> when it raises).
\<close>

type_synonym byte = "8 word"

record stdlib =
  hmac_sha256 :: "byte list \<Rightarrow> byte list \<Rightarrow> byte list"
  encode_utf8 :: "string \<Rightarrow> byte list option"
  json_loads :: "string \<Rightarrow> json option"

text \<open>\<open>hexdigest()\<close>: two lower-case hexadecimal digits per byte.\<close>

definition hex_digit :: "nat \<Rightarrow> char" where
  "hex_digit n = ''0123456789abcdef'' ! n"

definition hex_byte :: "byte \<Rightarrow> string" where
  "hex_byte b = [hex_digit (unat b div 16), hex_digit (unat b mod 16)]"

definition hexdigest :: "byte list \<Rightarrow> string" where
  "hexdigest bs = concat (map hex_byte bs)"

text \<open>
  \<open>hmac.compare_digest\<close> on two \<open>str\<close> arguments: they must hold ASCII characters only,
  otherwise it raises \<open>TypeError\<close>.
\<close>

definition is_ascii :: "char \<Rightarrow> bool" where
  "is_ascii ch = ((of_char ch :: nat) < 128)"

definition compare_digest :: "string \<Rightarrow> string \<Rightarrow> exn + bool" where
  "compare_digest a b =
     (if list_all is_ascii a \<and> list_all is_ascii b then Inr (a = b) else Inl TypeError)"

text \<open>The assignment to \<open>expected_signature\<close> (webhooks.py lines 108 to 110).\<close>

definition expected_signature :: "stdlib \<Rightarrow> string \<Rightarrow> string \<Rightarrow> exn + string" where
  "expected_signature L payload secret =
     (case encode_utf8 L secret of
        None \<Rightarrow> Inl UnicodeEncodeError
      | Some key \<Rightarrow>
         (case encode_utf8 L payload of
            None \<Rightarrow> Inl UnicodeEncodeError
          | Some msg \<Rightarrow> Inr (hexdigest (hmac_sha256 L key msg))))"

definition verify_try_block :: "stdlib \<Rightarrow> string \<Rightarrow> string \<Rightarrow> string \<Rightarrow> exn + bool" where
  "verify_try_block L payload signature secret =
     (case expected_signature L payload secret of
        Inl e \<Rightarrow> Inl e
      | Inr expected \<Rightarrow> compare_digest signature expected)"

text \<open>\<open>except Exception: return False\<close> catches every exception of the block.\<close>

definition verify_signature :: "stdlib \<Rightarrow> string \<Rightarrow> string \<Rightarrow> string \<Rightarrow> bool" where
  "verify_signature L payload signature secret =
     (case verify_try_block L payload signature secret of Inl e \<Rightarrow> False | Inr b \<Rightarrow> b)"

text \<open>\<open>parse_payload\<close>; Python's \<open>None\<close> is \<open>JNull\<close>.\<close>

definition parse_payload :: "stdlib \<Rightarrow> string \<Rightarrow> string \<Rightarrow> string \<Rightarrow> json" where
  "parse_payload L raw_body signature secret =
     (if \<not> verify_signature L raw_body signature secret then JNull
      else (case json_loads L raw_body of None \<Rightarrow> JNull | Some v \<Rightarrow> v))"

section \<open>Reachable client states and the token invariant\<close>

text \<open>
  The states an \<open>HttpClient\<close> takes through its operations: construction,
  \<open>set_access_token\<close>, \<open>clear_access_token\<close> and \<open>request\<close>.
\<close>

inductive reachable :: "http_client \<Rightarrow> bool" where
  reach_init: "reachable (init key environment url tmo max_retries)"
| reach_set: "reachable c \<Longrightarrow> reachable (set_access_token c token)"
| reach_clear: "reachable c \<Longrightarrow> reachable (clear_access_token c)"
| reach_request: "reachable c \<Longrightarrow> reachable (snd (request c send method path params json_data))"

text \<open>
  The token slot and the \<open>Authorization\<close> header agree: no token, no header; a token
  \<open>t\<close>, the header \<open>Bearer t\<close>.
\<close>

definition token_header_inv :: "http_client \<Rightarrow> bool" where
  "token_header_inv c =
     (case access_token c of
        None \<Rightarrow> headers c ''Authorization'' = None
      | Some t \<Rightarrow> headers c ''Authorization'' = Some (''Bearer '' @ t))"

section \<open>Example inputs\<close>

text \<open>A session that hands back the same outcome for every request.\<close>

definition answering :: "exn + response \<Rightarrow> prepared \<Rightarrow> exn + response" where
  "answering out req = out"

text \<open>
  Stand-ins for the library functions, for running the webhook helpers on concrete
  inputs: the keyed digest is the key followed by the message, every string encodes to
  the bytes of its characters, and the only document the decoder knows is \<open>{}\<close>.
\<close>

definition example_lib :: stdlib where
  "example_lib =
     \<lparr>hmac_sha256 = (\<lambda>key msg. key @ msg),
      encode_utf8 = (\<lambda>s. Some (map of_char s)),
      json_loads = (\<lambda>s. if s = ''{}'' then Some (JObj []) else None)\<rparr>"

text \<open>A client as the SDK builds it by default, and responses of the remote API.\<close>

definition example_client :: http_client where
  "example_client = init ''key'' ''sandbox'' None 30 3"

definition accounts_response :: response where
  "accounts_response =
     \<lparr>status_code = 200,
      resp_text = ''{success: true, data: {accounts: []}}'',
      resp_json = Inr (JObj [(''success'', JBool True), (''data'', JObj [(''accounts'', JArr [])])]),
      retry_after = None\<rparr>"

definition not_found_response :: response where
  "not_found_response =
     \<lparr>status_code = 404,
      resp_text = ''{success: false, error: {code: NOT_FOUND, message: No such account}}'',
      resp_json =
        Inr (JObj [(''success'', JBool False),
                   (''error'', JObj [(''code'', JStr ''NOT_FOUND''), (''message'', JStr ''No such account'')])]),
      retry_after = None\<rparr>"

definition unavailable_response :: response where
  "unavailable_response =
     \<lparr>status_code = 503, resp_text = ''busy'', resp_json = Inl ''Expecting value'', retry_after = None\<rparr>"

definition rate_limited_response :: response where
  "rate_limited_response =
     \<lparr>status_code = 429, resp_text = ''slow down'', resp_json = Inl ''Expecting value'',
      retry_after = Some 2\<rparr>"

definition null_body_response :: response where
  "null_body_response =
     \<lparr>status_code = 400, resp_text = ''null'', resp_json = Inr JNull, retry_after = None\<rparr>"

definition string_error_response :: response where
  "string_error_response =
     \<lparr>status_code = 404, resp_text = ''{error: Not found}'',
      resp_json = Inr (JObj [(''error'', JStr ''Not found'')]), retry_after = None\<rparr>"

section \<open>Properties of \<open>request\<close>\<close>

lemma request_keeps_client: "snd (request c send method path params json_data) = c"
  by (simp add: request_def)

lemma request_ok:
  assumes "send (prepare c method path params json_data) = Inr r" and "ok r" and "resp_json r = Inr v"
  shows "fst (request c send method path params json_data) = Inr (unwrap_data v)"
  using assms by (simp add: request_def request_try_block_def json_of_def)

lemma unwrap_data_cases:
  "unwrap_data v =
     (case v of JObj kvs \<Rightarrow> (case map_of kvs ''data'' of Some d \<Rightarrow> d | None \<Rightarrow> v) | _ \<Rightarrow> v)"
  by (cases v) (simp_all split: option.splits)

text \<open>
  C4. For every 2xx response whose body decodes, \<open>request\<close> returns the value under
  \<open>data\<close> when the decoded value is an object with a \<open>data\<close> key, and the whole decoded
  value otherwise.
\<close>

theorem request_success_unwraps_data:
  assumes "send (prepare c method path params json_data) = Inr r"
    and "200 \<le> status_code r" and "status_code r < 300"
    and "resp_json r = Inr v"
  shows "fst (request c send method path params json_data) =
     Inr (case v of
            JObj kvs \<Rightarrow> (case map_of kvs ''data'' of Some d \<Rightarrow> d | None \<Rightarrow> v)
          | _ \<Rightarrow> v)"
proof -
  have "ok r" using assms(2,3) by (simp add: ok_def)
  with assms(1,4) have "fst (request c send method path params json_data) = Inr (unwrap_data v)"
    by (simp add: request_ok)
  then show ?thesis by (simp add: unwrap_data_cases)
qed

theorem request_success_unwraps_data_witness:
  "fst (request example_client (answering (Inr accounts_response)) ''GET'' ''/accounts'' None None) =
     Inr (JObj [(''accounts'', JArr [])])"
  using request_success_unwraps_data
    [of "answering (Inr accounts_response)" example_client "''GET''" "''/accounts''" None None
        accounts_response
        "JObj [(''success'', JBool True), (''data'', JObj [(''accounts'', JArr [])])]"]
  by (simp add: answering_def accounts_response_def)

section \<open>The token slot and the Authorization header\<close>

lemma init_token_header_inv: "token_header_inv (init key environment url tmo max_retries)"
  by (simp add: token_header_inv_def init_def session_default_headers_def)

lemma set_token_header_inv: "token_header_inv (set_access_token c token)"
  by (simp add: token_header_inv_def set_access_token_def)

lemma clear_token_header_inv: "token_header_inv (clear_access_token c)"
  by (auto simp add: token_header_inv_def clear_access_token_def)

lemma reachable_token_header_inv: "reachable c \<Longrightarrow> token_header_inv c"
  by (induction rule: reachable.induct)
    (simp_all add: init_token_header_inv set_token_header_inv clear_token_header_inv
      request_keeps_client)

lemma clear_set_init:
  "clear_access_token (set_access_token (init key environment url tmo max_retries) token) =
     init key environment url tmo max_retries"
  by (simp add: clear_access_token_def set_access_token_def init_def session_default_headers_def)

text \<open>
  C10. Construction, \<open>set_access_token\<close>, \<open>clear_access_token\<close> and \<open>request\<close> keep the
  invariant: the session headers hold an \<open>Authorization\<close> entry exactly when
  \<open>access_token\<close> is not \<open>None\<close>, and the entry is then \<open>Bearer\<close> followed by the token.
\<close>

theorem token_header_invariant:
  "token_header_inv (init key environment url tmo max_retries)
   \<and> (token_header_inv c \<longrightarrow> token_header_inv (set_access_token c token))
   \<and> (token_header_inv c \<longrightarrow> token_header_inv (clear_access_token c))
   \<and> (token_header_inv c \<longrightarrow> token_header_inv (snd (request c send method path params json_data)))
   \<and> (reachable c \<longrightarrow>
        (''Authorization'' \<in> dom (headers c) \<longleftrightarrow> access_token c \<noteq> None)
        \<and> (case access_token c of
             None \<Rightarrow> True
           | Some t \<Rightarrow> headers c ''Authorization'' = Some (''Bearer '' @ t)))"
proof -
  have "reachable c \<longrightarrow>
        (''Authorization'' \<in> dom (headers c) \<longleftrightarrow> access_token c \<noteq> None)
        \<and> (case access_token c of
             None \<Rightarrow> True
           | Some t \<Rightarrow> headers c ''Authorization'' = Some (''Bearer '' @ t))"
    using reachable_token_header_inv [of c]
    by (auto simp add: token_header_inv_def split: option.splits)
  then show ?thesis
    by (simp add: init_token_header_inv set_token_header_inv clear_token_header_inv
        request_keeps_client)
qed

theorem token_header_invariant_witness:
  "reachable (snd (request (set_access_token example_client ''tok'')
       (answering (Inr accounts_response)) ''GET'' ''/accounts'' None None))
   \<and> token_header_inv (set_access_token example_client ''tok'')
   \<and> headers (snd (request (set_access_token example_client ''tok'')
       (answering (Inr accounts_response)) ''GET'' ''/accounts'' None None)) ''Authorization''
       = Some ''Bearer tok''"
proof -
  let ?c = "set_access_token example_client ''tok''"
  let ?c' = "snd (request ?c (answering (Inr accounts_response)) ''GET'' ''/accounts'' None None)"
  have r: "reachable ?c'"
    unfolding example_client_def by (intro reach_request reach_set reach_init)
  have t: "access_token ?c' = Some ''tok''"
    by (simp add: request_keeps_client set_access_token_def)
  have i: "token_header_inv example_client"
    using token_header_invariant [of "''key''" "''sandbox''" None 30 3]
    by (simp add: example_client_def)
  have "token_header_inv ?c"
    using i token_header_invariant [of "''key''" "''sandbox''" None 30 3 example_client "''tok''"]
    by simp
  moreover have "headers ?c' ''Authorization'' = Some ''Bearer tok''"
    using r t token_header_invariant [where c = ?c'] by simp
  ultimately show ?thesis using r by simp
qed

text \<open>
  C7. A request issued after \<open>clear_access_token\<close> carries no \<open>Authorization\<close> header; a
  request issued while a token is set carries \<open>Authorization: Bearer token\<close>; setting and
  then clearing the token on a fresh client gives the fresh client back; and a request
  without a token is sent and answered like any other.
\<close>

theorem set_then_clear_access_token:
  "req_headers (prepare (clear_access_token c) method path params json_data) ''Authorization'' = None
   \<and> req_headers (prepare (clear_access_token (set_access_token c token)) method path params json_data)
        ''Authorization'' = None
   \<and> req_headers (prepare (set_access_token c token) method path params json_data) ''Authorization''
        = Some (''Bearer '' @ token)
   \<and> clear_access_token (set_access_token (init key environment url tmo max_retries) token)
        = init key environment url tmo max_retries
   \<and> (reachable c \<longrightarrow>
        req_headers (prepare c method path params json_data) ''Authorization''
          = (case access_token c of None \<Rightarrow> None | Some t \<Rightarrow> Some (''Bearer '' @ t)))
   \<and> (access_token c = None \<longrightarrow> send (prepare c method path params json_data) = Inr r \<longrightarrow> ok r \<longrightarrow>
        resp_json r = Inr v \<longrightarrow>
        fst (request c send method path params json_data) = Inr (unwrap_data v))"
proof -
  have a: "req_headers (prepare (clear_access_token c') method path params json_data) ''Authorization'' = None"
    for c'
    by (auto simp add: prepare_def clear_access_token_def)
  have b: "req_headers (prepare (set_access_token c token) method path params json_data) ''Authorization''
        = Some (''Bearer '' @ token)"
    by (simp add: prepare_def set_access_token_def)
  have d: "reachable c \<longrightarrow>
        req_headers (prepare c method path params json_data) ''Authorization''
          = (case access_token c of None \<Rightarrow> None | Some t \<Rightarrow> Some (''Bearer '' @ t))"
    using reachable_token_header_inv [of c]
    by (auto simp add: token_header_inv_def prepare_def split: option.splits)
  show ?thesis
    using a b d by (simp add: clear_set_init request_ok)
qed

theorem set_then_clear_access_token_witness:
  "reachable (clear_access_token (set_access_token example_client ''tok''))
   \<and> access_token (clear_access_token (set_access_token example_client ''tok'')) = None
   \<and> req_headers (prepare (clear_access_token (set_access_token example_client ''tok''))
        ''GET'' ''/accounts'' None None) ''Authorization'' = None
   \<and> fst (request (clear_access_token (set_access_token example_client ''tok''))
        (answering (Inr accounts_response)) ''GET'' ''/accounts'' None None)
        = Inr (JObj [(''accounts'', JArr [])])"
proof -
  let ?c = "clear_access_token (set_access_token example_client ''tok'')"
  have r: "reachable ?c"
    unfolding example_client_def by (intro reach_clear reach_set reach_init)
  have t: "access_token ?c = None" by (simp add: clear_access_token_def)
  have s: "answering (Inr accounts_response) (prepare ?c ''GET'' ''/accounts'' None None)
      = Inr accounts_response"
    by (simp add: answering_def)
  have o: "ok accounts_response" by (simp add: ok_def accounts_response_def)
  have j: "resp_json accounts_response =
      Inr (JObj [(''success'', JBool True), (''data'', JObj [(''accounts'', JArr [])])])"
    by (simp add: accounts_response_def)
  show ?thesis
    using r t s o j
      set_then_clear_access_token [of ?c "''GET''" "''/accounts''" None None _ _ _ _ _ _
        "answering (Inr accounts_response)" accounts_response
        "JObj [(''success'', JBool True), (''data'', JObj [(''accounts'', JArr [])])]"]
    by simp
qed

section \<open>Properties of the webhook helpers\<close>

lemma hex_digit_ascii: "n < 16 \<Longrightarrow> is_ascii (hex_digit n)"
proof -
  assume "n < 16"
  then have "n \<in> {0,1,2,3,4,5,6,7,8,9,10,11,12,13,14,15}"
    by simp arith
  then show ?thesis by (auto simp add: hex_digit_def is_ascii_def)
qed

lemma hex_byte_ascii: "list_all is_ascii (hex_byte b)"
proof -
  have "unat b < 256" using unsigned_less [of b, where ?'a = nat] by simp
  then have "unat b div 16 < 16" by simp
  moreover have "unat b mod 16 < 16" by simp
  ultimately show ?thesis by (simp add: hex_byte_def hex_digit_ascii)
qed

lemma hexdigest_ascii: "list_all is_ascii (hexdigest bs)"
  by (induction bs) (simp_all add: hexdigest_def hex_byte_ascii)

lemma expected_signature_ascii:
  "expected_signature L payload secret = Inr x \<Longrightarrow> list_all is_ascii x"
  by (auto simp add: expected_signature_def hexdigest_ascii split: option.splits)

lemma verify_signature_eq:
  "verify_signature L payload sig secret \<longleftrightarrow> expected_signature L payload secret = Inr sig"
proof (cases "expected_signature L payload secret")
  case (Inl e)
  then show ?thesis by (simp add: verify_signature_def verify_try_block_def)
next
  case (Inr x)
  then have "list_all is_ascii x" by (rule expected_signature_ascii)
  with Inr show ?thesis
    by (auto simp add: verify_signature_def verify_try_block_def compare_digest_def)
qed











lemma example_expected: "expected_signature example_lib ''{}'' ''k'' = Inr ''6b7b7d''"
  by (simp add: expected_signature_def example_lib_def hexdigest_def hex_byte_def hex_digit_def)

lemma example_expected_open: "expected_signature example_lib ''{'' ''k'' = Inr ''6b7b''"
  by (simp add: expected_signature_def example_lib_def hexdigest_def hex_byte_def hex_digit_def)

text \<open>
  C6. \<open>parse_payload\<close> returns \<open>None\<close> when the signature does not verify, whatever the
  body; \<open>None\<close> when the signature verifies and the body is not valid JSON; and the
  decoded body otherwise.
\<close>

theorem parse_payload_cases:
  "(\<not> verify_signature L raw_body sig secret \<longrightarrow> parse_payload L raw_body sig secret = JNull)
   \<and> (verify_signature L raw_body sig secret \<longrightarrow> json_loads L raw_body = None \<longrightarrow>
        parse_payload L raw_body sig secret = JNull)
   \<and> (verify_signature L raw_body sig secret \<longrightarrow> json_loads L raw_body = Some v \<longrightarrow>
        parse_payload L raw_body sig secret = v)"
  by (simp add: parse_payload_def)

theorem parse_payload_cases_witness:
  "json_loads example_lib ''{}'' = Some (JObj [])
   \<and> \<not> verify_signature example_lib ''{}'' ''00'' ''k''
   \<and> parse_payload example_lib ''{}'' ''00'' ''k'' = JNull
   \<and> verify_signature example_lib ''{'' ''6b7b'' ''k''
   \<and> json_loads example_lib ''{'' = None
   \<and> parse_payload example_lib ''{'' ''6b7b'' ''k'' = JNull
   \<and> verify_signature example_lib ''{}'' ''6b7b7d'' ''k''
   \<and> parse_payload example_lib ''{}'' ''6b7b7d'' ''k'' = JObj []"
proof -
  have l1: "json_loads example_lib ''{}'' = Some (JObj [])" by (simp add: example_lib_def)
  have l2: "json_loads example_lib ''{'' = None" by (simp add: example_lib_def)
  have v1: "\<not> verify_signature example_lib ''{}'' ''00'' ''k''"
    by (simp add: verify_signature_eq example_expected)
  have v2: "verify_signature example_lib ''{'' ''6b7b'' ''k''"
    by (simp add: verify_signature_eq example_expected_open)
  have v3: "verify_signature example_lib ''{}'' ''6b7b7d'' ''k''"
    by (simp add: verify_signature_eq example_expected)
  show ?thesis
    using l1 l2 v1 v2 v3
      parse_payload_cases [of example_lib "''{}''" "''00''" "''k''"]
      parse_payload_cases [of example_lib "''{''" "''6b7b''" "''k''"]
      parse_payload_cases [of example_lib "''{}''" "''6b7b7d''" "''k''" "JObj []"]
    by simp
qed

section \<open>Error classification\<close>

lemma handle_error_response_raises: "\<exists>e. handle_error_response r = Inl e"
  by (simp add: handle_error_response_def split: sum.splits)

lemma handle_error_envelope:
  assumes "resp_json r = Inr (JObj kvs)" and "map_of kvs ''error'' = Some (JObj e)"
  shows "handle_error_response r =
     Inl (ReshADXError
       \<lparr>message = (case map_of e ''message'' of Some m \<Rightarrow> m | None \<Rightarrow> JStr ''Unknown error''),
        code = (case map_of e ''code'' of Some cd \<Rightarrow> cd | None \<Rightarrow> JStr ''UNKNOWN_ERROR''),
        err_status_code = status_code r,
        details =
          (case map_of e ''details'' of
             Some d \<Rightarrow> (if truthy d then d else JObj [])
           | None \<Rightarrow> JObj [])\<rparr>)"
  using assms
  by (simp add: handle_error_response_def error_try_block_def json_of_def raise_envelope_error_def
      init_error_def is_ValueError_def split: option.splits)

lemma handle_error_unparsable:
  assumes "resp_json r = Inl m"
  shows "handle_error_response r = Inl (fallback_error r)"
  using assms
  by (simp add: handle_error_response_def error_try_block_def json_of_def is_ValueError_def)

lemma handle_error_no_error_key:
  assumes "resp_json r = Inr (JObj kvs)" and "map_of kvs ''error'' = None"
  shows "handle_error_response r = Inl (fallback_error r)"
  using assms
  by (simp add: handle_error_response_def error_try_block_def json_of_def is_ValueError_def)

lemma fallback_error_fields:
  "fallback_error r =
     ServerError \<lparr>message = JStr (''HTTP '' @ str_nat (status_code r) @ '': '' @ resp_text r),
       code = JStr ''SERVER_ERROR'', err_status_code = 500, details = JObj []\<rparr>"
  by (simp add: fallback_error_def init_ServerError_def init_error_def)

lemma request_error_response:
  assumes "send (prepare c method path params json_data) = Inr r" and "\<not> ok r"
    and "handle_error_response r = Inl e" and "\<not> is_RequestException e"
  shows "fst (request c send method path params json_data) = Inl e"
  using assms
  by (auto simp add: request_def request_try_block_def is_Timeout_def is_ConnectionError_def
      is_RequestException_def)

lemma request_timeout:
  assumes "send (prepare c method path params json_data) = Inl Timeout"
  shows "fst (request c send method path params json_data) =
     Inl (ReshADXError \<lparr>message = JStr ''Request timed out'', code = JStr ''TIMEOUT_ERROR'',
       err_status_code = 0, details = JObj []\<rparr>)"
  using assms
  by (simp add: request_def request_try_block_def is_Timeout_def sdk_error_def init_error_def)

lemma request_connection_error:
  assumes "send (prepare c method path params json_data) = Inl ConnectionError"
  shows "fst (request c send method path params json_data) =
     Inl (ReshADXError \<lparr>message = JStr ''Connection error'', code = JStr ''NETWORK_ERROR'',
       err_status_code = 0, details = JObj []\<rparr>)"
  using assms
  by (simp add: request_def request_try_block_def is_Timeout_def is_ConnectionError_def
      sdk_error_def init_error_def)

text \<open>
  C3. The error handler on a body that decodes to \<open>null\<close>: the body has no \<open>error\<close> key,
  yet no generic server error is raised; the membership test raises \<open>TypeError\<close>, which
  leaves \<open>request\<close> as it is.
\<close>

theorem null_body_raises_TypeError:
  "handle_error_response null_body_response = Inl TypeError
   \<and> fst (request example_client (answering (Inr null_body_response)) ''GET'' ''/accounts'' None None)
       = Inl TypeError"
  by (simp add: request_def request_try_block_def answering_def ok_def handle_error_response_def
      error_try_block_def json_of_def is_ValueError_def is_Timeout_def is_ConnectionError_def
      is_RequestException_def null_body_response_def)

text \<open>
  C8. A 404 response whose \<open>error\<close> member is a string: \<open>request\<close> does not raise a typed
  error with a code; \<open>error.get\<close> raises \<open>AttributeError\<close>, which no \<open>except\<close> clause
  catches. The client, and with it the token slot, is unchanged.
\<close>

theorem string_error_raises_AttributeError:
  "request (set_access_token example_client ''tok'') (answering (Inr string_error_response))
      ''GET'' ''/accounts'' None None
     = (Inl AttributeError, set_access_token example_client ''tok'')"
  by (simp add: request_def request_try_block_def answering_def ok_def handle_error_response_def
      error_try_block_def json_of_def is_ValueError_def is_Timeout_def is_ConnectionError_def
      is_RequestException_def raise_envelope_error_def string_error_response_def)

section \<open>The retry loop\<close>

lemma retry_loop_stops:
  "\<not> should_retry p method (remote i) \<Longrightarrow>
     retry_loop p method remote i n = \<lparr>outcome = remote i, attempts = Suc i, delays = []\<rparr>"
  by (cases n) simp_all

lemma retry_loop_attempts_ge: "Suc i \<le> attempts (retry_loop p method remote i n)"
proof (induction n arbitrary: i)
  case 0
  show ?case by simp
next
  case (Suc n)
  have "Suc (Suc i) \<le> attempts (retry_loop p method remote (Suc i) n)" by (rule Suc.IH)
  then show ?case by (simp add: Let_def)
qed

lemma retry_loop_all_retried:
  assumes "method \<in> set (allowed_methods p)"
    and "\<forall>j<n. retryable_outcome p (remote (i + j))"
  shows "outcome (retry_loop p method remote i n) = remote (i + n)
     \<and> attempts (retry_loop p method remote i n) = Suc (i + n)"
  using assms(2)
proof (induction n arbitrary: i)
  case 0
  show ?case by simp
next
  case (Suc n)
  have first: "should_retry p method (remote i)"
    using Suc.prems assms(1) by (auto simp add: should_retry_def dest: spec [of _ 0])
  have "\<forall>j<n. retryable_outcome p (remote (Suc i + j))"
  proof (intro allI impI)
    fix j assume "j < n"
    then have "Suc j < Suc n" by simp
    with Suc.prems have "retryable_outcome p (remote (i + Suc j))" by blast
    then show "retryable_outcome p (remote (Suc i + j))" by simp
  qed
  then have "outcome (retry_loop p method remote (Suc i) n) = remote (Suc i + n)
     \<and> attempts (retry_loop p method remote (Suc i) n) = Suc (Suc i + n)"
    by (rule Suc.IH)
  with first show ?case by (simp add: Let_def)
qed

lemma retry_loop_delay:
  assumes "method \<in> set (allowed_methods p)"
  shows "k < n \<Longrightarrow> \<forall>j\<le>k. retryable_outcome p (remote (i + j)) \<Longrightarrow>
     k < length (delays (retry_loop p method remote i n))
     \<and> delays (retry_loop p method remote i n) ! k = retry_delay p (i + k) (remote (i + k))
     \<and> Suc (i + k) < attempts (retry_loop p method remote i n)"
proof (induction n arbitrary: i k)
  case 0
  then show ?case by simp
next
  case (Suc n)
  have first: "should_retry p method (remote i)"
    using Suc.prems(2) assms by (auto simp add: should_retry_def dest: spec [of _ 0])
  show ?case
  proof (cases k)
    case 0
    have "Suc (Suc i) \<le> attempts (retry_loop p method remote (Suc i) n)"
      by (rule retry_loop_attempts_ge)
    with first 0 show ?thesis by (simp add: Let_def)
  next
    case (Suc k')
    have lt: "k' < n" using Suc.prems(1) Suc by simp
    have "\<forall>j\<le>k'. retryable_outcome p (remote (Suc i + j))"
    proof (intro allI impI)
      fix j assume "j \<le> k'"
      then have "Suc j \<le> k" using Suc by simp
      with Suc.prems(2) have "retryable_outcome p (remote (i + Suc j))" by blast
      then show "retryable_outcome p (remote (Suc i + j))" by simp
    qed
    with lt have "k' < length (delays (retry_loop p method remote (Suc i) n))
     \<and> delays (retry_loop p method remote (Suc i) n) ! k' = retry_delay p (Suc i + k') (remote (Suc i + k'))
     \<and> Suc (Suc i + k') < attempts (retry_loop p method remote (Suc i) n)"
      by (rule Suc.IH)
    with first Suc show ?thesis by (simp add: Let_def)
  qed
qed

lemma init_retry_strategy:
  "retry_strategy (init key environment url tmo max_retries) =
     \<lparr>total = max_retries, backoff_factor = 1, status_forcelist = [429, 500, 502, 503, 504],
      allowed_methods = [''HEAD'', ''GET'', ''PUT'', ''DELETE'', ''OPTIONS'', ''TRACE'', ''POST'']\<rparr>"
  by (simp add: init_def)

text \<open>
  C1, as amended. With the policy \<open>__init__\<close> configures and a method of the allow-list,
  \<open>max_retries\<close> responses with a retryable status followed by a decodable 2xx response
  give the success payload after exactly \<open>max_retries + 1\<close> attempts.
\<close>

theorem retries_then_success:
  assumes "retry_strategy c = retry_strategy (init key environment url tmo max_retries)"
    and "method \<in> {''HEAD'', ''GET'', ''PUT'', ''DELETE'', ''OPTIONS'', ''TRACE'', ''POST''}"
    and "\<forall>i<max_retries. \<exists>r'. remote (prepare c method path params json_data) i = Inr r'
           \<and> status_code r' \<in> {429, 500, 502, 503, 504}"
    and "remote (prepare c method path params json_data) max_retries = Inr r"
    and "200 \<le> status_code r" and "status_code r < 300"
    and "resp_json r = Inr v"
  shows "fst (request c (send_via c remote) method path params json_data) = Inr (unwrap_data v)
     \<and> attempts (session_request c remote (prepare c method path params json_data)) = max_retries + 1"
proof -
  let ?p = "retry_strategy c"
  let ?req = "prepare c method path params json_data"
  have p: "?p = \<lparr>total = max_retries, backoff_factor = 1, status_forcelist = [429, 500, 502, 503, 504],
      allowed_methods = [''HEAD'', ''GET'', ''PUT'', ''DELETE'', ''OPTIONS'', ''TRACE'', ''POST'']\<rparr>"
    using assms(1) by (simp add: init_retry_strategy)
  have m: "req_method ?req \<in> set (allowed_methods ?p)"
    using assms(2) by (simp add: p prepare_def)
  have f: "\<forall>j<total ?p. retryable_outcome ?p (remote ?req (0 + j))"
  proof (intro allI impI)
    fix j assume "j < total ?p"
    then have "j < max_retries" by (simp add: p)
    with assms(3) obtain r' where "remote ?req j = Inr r'"
      and "status_code r' \<in> {429, 500, 502, 503, 504}" by blast
    then show "retryable_outcome ?p (remote ?req (0 + j))"
      by (simp add: retryable_outcome_def p)
  qed
  have l: "outcome (retry_loop ?p (req_method ?req) (remote ?req) 0 (total ?p)) = remote ?req (0 + total ?p)
     \<and> attempts (retry_loop ?p (req_method ?req) (remote ?req) 0 (total ?p)) = Suc (0 + total ?p)"
    using m f by (rule retry_loop_all_retried)
  have t: "total ?p = max_retries" by (simp add: p)
  have s: "send_via c remote ?req = Inr r"
    using l assms(4) by (simp add: send_via_def session_request_def t)
  have "ok r" using assms(5,6) by (simp add: ok_def)
  with s assms(7) have "fst (request c (send_via c remote) method path params json_data) = Inr (unwrap_data v)"
    by (simp add: request_ok)
  moreover have "attempts (session_request c remote ?req) = max_retries + 1"
    using l by (simp add: session_request_def t)
  ultimately show ?thesis by simp
qed


lemma scripted_three_failures:
  "\<forall>i<3. \<exists>r'. scripted [Inr unavailable_response, Inr unavailable_response, Inr unavailable_response]
       (Inr accounts_response) req i = Inr r' \<and> status_code r' \<in> {429, 500, 502, 503, 504}"
proof (intro allI impI)
  fix i :: nat assume "i < 3"
  then have "i = 0 \<or> i = 1 \<or> i = 2" by arith
  then show "\<exists>r'. scripted [Inr unavailable_response, Inr unavailable_response, Inr unavailable_response]
       (Inr accounts_response) req i = Inr r' \<and> status_code r' \<in> {429, 500, 502, 503, 504}"
    by (auto simp add: scripted_def unavailable_response_def)
qed

theorem retries_then_success_witness:
  "fst (request example_client
      (send_via example_client
         (scripted [Inr unavailable_response, Inr unavailable_response, Inr unavailable_response]
            (Inr accounts_response)))
      ''GET'' ''/accounts'' None None) = Inr (JObj [(''accounts'', JArr [])])
   \<and> attempts (session_request example_client
        (scripted [Inr unavailable_response, Inr unavailable_response, Inr unavailable_response]
           (Inr accounts_response))
        (prepare example_client ''GET'' ''/accounts'' None None)) = 4"
proof -
  let ?remote = "scripted [Inr unavailable_response, Inr unavailable_response, Inr unavailable_response]
      (Inr accounts_response)"
  have a: "retry_strategy example_client = retry_strategy (init ''key'' ''sandbox'' None 30 3)"
    by (simp add: example_client_def)
  have b: "''GET'' \<in> {''HEAD'', ''GET'', ''PUT'', ''DELETE'', ''OPTIONS'', ''TRACE'', ''POST''}"
    by simp
  have d: "?remote (prepare example_client ''GET'' ''/accounts'' None None) 3 = Inr accounts_response"
    by (simp add: scripted_def)
  have e: "200 \<le> status_code accounts_response" "status_code accounts_response < 300"
    by (simp_all add: accounts_response_def)
  have f: "resp_json accounts_response =
      Inr (JObj [(''success'', JBool True), (''data'', JObj [(''accounts'', JArr [])])])"
    by (simp add: accounts_response_def)
  have g: "\<forall>i<3. \<exists>r'. ?remote (prepare example_client ''GET'' ''/accounts'' None None) i = Inr r'
       \<and> status_code r' \<in> {429, 500, 502, 503, 504}"
    by (rule scripted_three_failures)
  show ?thesis
    using a b g d e f
      retries_then_success [of example_client "''key''" "''sandbox''" None 30 3 "''GET''" ?remote
        "''/accounts''" None None accounts_response
        "JObj [(''success'', JBool True), (''data'', JObj [(''accounts'', JArr [])])]"]
    by simp
qed

text \<open>
  C1 as stated fails for \<open>PATCH\<close>, which \<open>HttpClient.patch\<close> sends and the allow-list of
  line 45 leaves out: three 503 responses followed by a success give one attempt and the
  fallback error of the first response.
\<close>

theorem patch_is_not_retried:
  "fst (request example_client
      (send_via example_client
         (scripted [Inr unavailable_response, Inr unavailable_response, Inr unavailable_response]
            (Inr accounts_response)))
      ''PATCH'' ''/auth/profile'' None None)
     = Inl (ServerError \<lparr>message = JStr ''HTTP 503: busy'', code = JStr ''SERVER_ERROR'',
         err_status_code = 500, details = JObj []\<rparr>)
   \<and> attempts (session_request example_client
        (scripted [Inr unavailable_response, Inr unavailable_response, Inr unavailable_response]
           (Inr accounts_response))
        (prepare example_client ''PATCH'' ''/auth/profile'' None None)) = 1
   \<and> total (retry_strategy example_client) = 3"
proof -
  let ?remote = "scripted [Inr unavailable_response, Inr unavailable_response, Inr unavailable_response]
      (Inr accounts_response)"
  let ?req = "prepare example_client ''PATCH'' ''/auth/profile'' None None"
  have n: "\<not> should_retry (retry_strategy example_client) (req_method ?req) (?remote ?req 0)"
    by (simp add: should_retry_def example_client_def init_def prepare_def)
  have t: "session_request example_client ?remote ?req =
      \<lparr>outcome = Inr unavailable_response, attempts = 1, delays = []\<rparr>"
    using n retry_loop_stops [of "retry_strategy example_client" "req_method ?req" "?remote ?req" 0
        "total (retry_strategy example_client)"]
    by (simp add: session_request_def scripted_def)
  have s: "send_via example_client ?remote ?req = Inr unavailable_response"
    by (simp add: send_via_def t)
  have o: "\<not> ok unavailable_response" by (simp add: ok_def unavailable_response_def)
  have h: "handle_error_response unavailable_response = Inl (fallback_error unavailable_response)"
    by (rule handle_error_unparsable) (simp add: unavailable_response_def)
  have fb: "fallback_error unavailable_response =
      ServerError \<lparr>message = JStr ''HTTP 503: busy'', code = JStr ''SERVER_ERROR'',
         err_status_code = 500, details = JObj []\<rparr>"
    by (simp add: fallback_error_fields unavailable_response_def str_nat.simps digit_char_def)
  have "fst (request example_client (send_via example_client ?remote) ''PATCH'' ''/auth/profile'' None None)
      = Inl (fallback_error unavailable_response)"
    using s o h by (rule request_error_response) (simp add: fb is_RequestException_def)
  moreover have "total (retry_strategy example_client) = 3"
    by (simp add: example_client_def init_def)
  ultimately show ?thesis by (simp add: fb t)
qed

text \<open>
  C2. A response with an error status outside the retryable set that carries an error
  envelope: one attempt is made, and the error raised has the envelope's code and
  message and the status of the response.
\<close>

theorem non_retryable_error_single_attempt:
  assumes "retry_strategy c = retry_strategy (init key environment url tmo max_retries)"
    and "remote (prepare c method path params json_data) 0 = Inr r"
    and "status_code r \<notin> {429, 500, 502, 503, 504}"
    and "400 \<le> status_code r" and "status_code r < 600"
    and "resp_json r = Inr (JObj kvs)" and "map_of kvs ''error'' = Some (JObj e)"
  shows "fst (request c (send_via c remote) method path params json_data) =
     Inl (ReshADXError
       \<lparr>message = (case map_of e ''message'' of Some m \<Rightarrow> m | None \<Rightarrow> JStr ''Unknown error''),
        code = (case map_of e ''code'' of Some cd \<Rightarrow> cd | None \<Rightarrow> JStr ''UNKNOWN_ERROR''),
        err_status_code = status_code r,
        details =
          (case map_of e ''details'' of
             Some d \<Rightarrow> (if truthy d then d else JObj [])
           | None \<Rightarrow> JObj [])\<rparr>)
     \<and> attempts (session_request c remote (prepare c method path params json_data)) = 1"
proof -
  let ?p = "retry_strategy c"
  let ?req = "prepare c method path params json_data"
  have "status_forcelist ?p = [429, 500, 502, 503, 504]"
    using assms(1) by (simp add: init_retry_strategy)
  then have n: "\<not> should_retry ?p (req_method ?req) (remote ?req 0)"
    using assms(2,3) by (simp add: should_retry_def retryable_outcome_def)
  have t: "session_request c remote ?req = \<lparr>outcome = Inr r, attempts = 1, delays = []\<rparr>"
    using n assms(2) retry_loop_stops [of ?p "req_method ?req" "remote ?req" 0 "total ?p"]
    by (simp add: session_request_def)
  have s: "send_via c remote ?req = Inr r" by (simp add: send_via_def t)
  have o: "\<not> ok r" using assms(4,5) by (simp add: ok_def)
  note h = handle_error_envelope [OF assms(6,7)]
  have "fst (request c (send_via c remote) method path params json_data) =
     Inl (ReshADXError
       \<lparr>message = (case map_of e ''message'' of Some m \<Rightarrow> m | None \<Rightarrow> JStr ''Unknown error''),
        code = (case map_of e ''code'' of Some cd \<Rightarrow> cd | None \<Rightarrow> JStr ''UNKNOWN_ERROR''),
        err_status_code = status_code r,
        details =
          (case map_of e ''details'' of
             Some d \<Rightarrow> (if truthy d then d else JObj [])
           | None \<Rightarrow> JObj [])\<rparr>)"
    using s o h by (rule request_error_response) (simp add: is_RequestException_def)
  then show ?thesis by (simp add: t)
qed

theorem non_retryable_error_single_attempt_witness:
  "fst (request example_client (send_via example_client (scripted [] (Inr not_found_response)))
      ''GET'' ''/accounts/42'' None None)
     = Inl (ReshADXError \<lparr>message = JStr ''No such account'', code = JStr ''NOT_FOUND'',
         err_status_code = 404, details = JObj []\<rparr>)
   \<and> attempts (session_request example_client (scripted [] (Inr not_found_response))
        (prepare example_client ''GET'' ''/accounts/42'' None None)) = 1"
proof -
  have a: "retry_strategy example_client = retry_strategy (init ''key'' ''sandbox'' None 30 3)"
    by (simp add: example_client_def)
  have b: "scripted [] (Inr not_found_response) (prepare example_client ''GET'' ''/accounts/42'' None None) 0
      = Inr not_found_response"
    by (simp add: scripted_def)
  have d: "status_code not_found_response \<notin> {429, 500, 502, 503, 504}"
    "400 \<le> status_code not_found_response" "status_code not_found_response < 600"
    by (simp_all add: not_found_response_def)
  have f: "resp_json not_found_response =
      Inr (JObj [(''success'', JBool False),
                 (''error'', JObj [(''code'', JStr ''NOT_FOUND''), (''message'', JStr ''No such account'')])])"
    by (simp add: not_found_response_def)
  have g: "map_of [(''success'', JBool False),
                 (''error'', JObj [(''code'', JStr ''NOT_FOUND''), (''message'', JStr ''No such account'')])]
              ''error''
      = Some (JObj [(''code'', JStr ''NOT_FOUND''), (''message'', JStr ''No such account'')])"
    by simp
  show ?thesis
    using a b d f g
      non_retryable_error_single_attempt [of example_client "''key''" "''sandbox''" None 30 3
        "scripted [] (Inr not_found_response)" "''GET''" "''/accounts/42''" None None
        not_found_response
        "[(''success'', JBool False),
          (''error'', JObj [(''code'', JStr ''NOT_FOUND''), (''message'', JStr ''No such account'')])]"
        "[(''code'', JStr ''NOT_FOUND''), (''message'', JStr ''No such account'')]"]
    by (simp add: not_found_response_def)
qed

text \<open>
  C9. When an attempt that is retried answers 429 with a \<open>Retry-After\<close> hint, the delay
  before the next attempt is at least the hint, whatever the backoff factor of the policy
  and the number of the attempt; with \<open>Retry-After: 2\<close> it is at least 2 time units.
\<close>

theorem retry_after_delay:
  assumes "429 \<in> set (status_forcelist (retry_strategy c))"
    and "req_method req \<in> set (allowed_methods (retry_strategy c))"
    and "i < total (retry_strategy c)"
    and "\<forall>j<i. retryable_outcome (retry_strategy c) (remote req j)"
    and "remote req i = Inr r" and "status_code r = 429" and "retry_after r = Some d"
  shows "i < length (delays (session_request c remote req))
     \<and> d \<le> delays (session_request c remote req) ! i
     \<and> i + 1 < attempts (session_request c remote req)"
proof -
  let ?p = "retry_strategy c"
  have "retryable_outcome ?p (remote req i)"
    using assms(1,5,6) by (simp add: retryable_outcome_def)
  with assms(4) have "\<forall>j\<le>i. retryable_outcome ?p (remote req (0 + j))"
    by (auto simp add: le_less)
  with assms(2,3) have
    "i < length (delays (retry_loop ?p (req_method req) (remote req) 0 (total ?p)))
     \<and> delays (retry_loop ?p (req_method req) (remote req) 0 (total ?p)) ! i
         = retry_delay ?p (0 + i) (remote req (0 + i))
     \<and> Suc (0 + i) < attempts (retry_loop ?p (req_method req) (remote req) 0 (total ?p))"
    by (rule retry_loop_delay)
  moreover have "retry_delay ?p i (remote req i) = d"
    using assms(5,6,7) by (simp add: retry_delay_def)
  ultimately show ?thesis by (simp add: session_request_def)
qed

theorem retry_after_delay_witness:
  "delays (session_request example_client (scripted [Inr rate_limited_response] (Inr accounts_response))
      (prepare example_client ''GET'' ''/accounts'' None None)) \<noteq> []
   \<and> 2 \<le> delays (session_request example_client
            (scripted [Inr rate_limited_response] (Inr accounts_response))
            (prepare example_client ''GET'' ''/accounts'' None None)) ! 0"
proof -
  let ?remote = "scripted [Inr rate_limited_response] (Inr accounts_response)"
  let ?req = "prepare example_client ''GET'' ''/accounts'' None None"
  have a: "429 \<in> set (status_forcelist (retry_strategy example_client))"
    by (simp add: example_client_def init_def)
  have b: "req_method ?req \<in> set (allowed_methods (retry_strategy example_client))"
    by (simp add: example_client_def init_def prepare_def)
  have d: "0 < total (retry_strategy example_client)"
    by (simp add: example_client_def init_def)
  have e: "\<forall>j<0. retryable_outcome (retry_strategy example_client) (?remote ?req j)"
    by simp
  have f: "?remote ?req 0 = Inr rate_limited_response" by (simp add: scripted_def)
  have g: "status_code rate_limited_response = 429" "retry_after rate_limited_response = Some 2"
    by (simp_all add: rate_limited_response_def)
  show ?thesis
    using a b d e f g
      retry_after_delay [where c = example_client and req = ?req and i = 0 and remote = ?remote
        and r = rate_limited_response and d = 2]
    by auto
qed

end
